theory Spec2Isabelle
  imports Complex_Main
begin

section \<open>Data model of \<^verbatim>\<open>src/app/app.ts\<close>\<close>

text \<open>
  The component \<^verbatim>\<open>App\<close> keeps a list of employee records, a draft session (the index
  being edited, a photo preview, a list of staged documents and the reactive form) and
  mirrors the list into the browser's \<^verbatim>\<open>localStorage\<close> under one key.

  A JavaScript \<^verbatim>\<open>number\<close> is modelled by a real number (the program only stores numbers and
  compares them; \<^verbatim>\<open>formatBytes\<close> is treated in its own section). A value of type
  \<^verbatim>\<open>T | null | undefined\<close> is a \<open>T option\<close>, \<open>None\<close> standing for both \<^verbatim>\<open>null\<close> and
  \<^verbatim>\<open>undefined\<close>: the program never tells them apart (it only uses \<^verbatim>\<open>??\<close> and \<^verbatim>\<open>!\<close> on them).
\<close>

type_synonym number = real

text \<open>\<^verbatim>\<open>interface DocInfo { name: string; size: number }\<close>\<close>

record DocInfo =
  doc_name :: string
  doc_size :: number

text \<open>
  The eleven controls of the form group built in \<^verbatim>\<open>ngOnInit\<close>; \<^verbatim>\<open>form.value\<close> is an object
  with one property per control.
\<close>

record form_value =
  name :: string
  phone :: string
  email :: "string option"
  nid :: string
  dob :: string
  address :: string
  qualification :: string
  religion :: "string option"
  experience :: number
  lastWorkPlace :: "string option"
  salary :: number

text \<open>
  \<^verbatim>\<open>interface Employee\<close>: the properties of the form value, \<^verbatim>\<open>photoDataUrl\<close> and
  \<^verbatim>\<open>documents\<close>.
\<close>

record employee = form_value +
  photoDataUrl :: "string option"
  documents :: "DocInfo list"

datatype control =
  Name | Phone | Email | Nid | Dob | Address | Qualification | Religion | Experience
  | LastWorkPlace | Salary

text \<open>
  The state of the \<^verbatim>\<open>FormGroup\<close> that the program reads and writes: the value of its
  controls and which controls are marked as touched.
\<close>

record form_state =
  fvalue :: form_value
  touched :: "control \<Rightarrow> bool"

text \<open>
  A JavaScript array of employees. An element is \<open>None\<close> when reading it gives
  \<^verbatim>\<open>undefined\<close> or \<^verbatim>\<open>null\<close> (a hole left by an assignment beyond the end of the array, or a
  \<^verbatim>\<open>null\<close> of the stored JSON).
\<close>

type_synonym employee_list = "employee option list"

text \<open>
  The component's state: the four signals, the form, and the browser's storage (a map
  from keys to strings; \<^verbatim>\<open>getItem\<close> of a missing key is \<^verbatim>\<open>null\<close>).
\<close>

record app =
  form :: form_state
  employees :: employee_list
  editingIndex :: "int option"
  photoPreview :: "string option"
  docs :: "DocInfo list"
  localStorage :: "string \<rightharpoonup> string"

text \<open>
  What the program calls of the platform and does not define itself: the pattern test of
  Angular's \<^verbatim>\<open>Validators.email\<close>, \<^verbatim>\<open>JSON.stringify\<close>, \<^verbatim>\<open>JSON.parse\<close>,
  \<^verbatim>\<open>String.prototype.toUpperCase\<close> on a string of one character (its result may be
  longer), and the floating-point computation \<^verbatim>\<open>Math.floor(Math.log(n) / Math.log(k))\<close>
  for positive integers \<open>n\<close> and \<open>k\<close>. \<^verbatim>\<open>JSON.parse\<close> throws a \<^verbatim>\<open>SyntaxError\<close> (\<open>Inl\<close>) or
  returns a value, of which the program only asks whether it is an array.
\<close>

datatype js_error = SyntaxError

datatype json = JArray employee_list | JOther

record platform =
  email_pattern :: "string \<Rightarrow> bool"
  JSON_stringify :: "employee_list \<Rightarrow> string"
  JSON_parse :: "string \<Rightarrow> js_error + json"
  toUpperCase :: "char \<Rightarrow> string"
  floor_log_quotient :: "nat \<Rightarrow> nat \<Rightarrow> nat"

section \<open>Array operations of JavaScript\<close>

text \<open>\<^verbatim>\<open>xs[i]\<close> for an integer \<open>i\<close>: \<^verbatim>\<open>undefined\<close> outside the array.\<close>

definition js_index :: "'a option list \<Rightarrow> int \<Rightarrow> 'a option" where
  "js_index xs i = (if 0 \<le> i \<and> i < int (length xs) then xs ! nat i else None)"

text \<open>
  \<^verbatim>\<open>xs[i] = v\<close> for an integer \<open>i\<close>: an index at or beyond the length extends the array,
  the elements in between being holes; a negative index sets a property named by the
  number and leaves the elements as they are.
\<close>

definition js_assign :: "'a option list \<Rightarrow> int \<Rightarrow> 'a \<Rightarrow> 'a option list" where
  "js_assign xs i v =
     (if i < 0 then xs
      else if nat i < length xs then xs[nat i := Some v]
      else xs @ replicate (nat i - length xs) None @ [Some v])"

text \<open>
  The array after \<^verbatim>\<open>xs.splice(start, deleteCount)\<close> (ECMAScript,
  \<^verbatim>\<open>Array.prototype.splice\<close>): a negative start counts from the end, the start is clamped
  to the array, and the count to what is left after the start.
\<close>

definition js_splice :: "'a list \<Rightarrow> int \<Rightarrow> int \<Rightarrow> 'a list" where
  "js_splice xs start deleteCount =
     (let len = int (length xs);
          actualStart = (if start < 0 then max (len + start) 0 else min start len);
          actualDeleteCount = min (max deleteCount 0) (len - actualStart)
      in take (nat actualStart) xs @ drop (nat (actualStart + actualDeleteCount)) xs)"

section \<open>The form\<close>

text \<open>
  The validators declared in \<^verbatim>\<open>ngOnInit\<close>, each as the test it passes.
  \<^verbatim>\<open>Validators.required\<close> fails on \<^verbatim>\<open>null\<close> and on the empty string;
  \<^verbatim>\<open>Validators.maxLength\<close>, \<^verbatim>\<open>Validators.pattern\<close> and \<^verbatim>\<open>Validators.email\<close> pass on an
  empty value; \<^verbatim>\<open>Validators.min(m)\<close> fails on a number below \<open>m\<close>.
\<close>

definition required :: "string \<Rightarrow> bool" where
  "required v = (v \<noteq> [])"

definition maxLength :: "nat \<Rightarrow> string \<Rightarrow> bool" where
  "maxLength n v = (length v \<le> n)"

definition is_digit :: "char \<Rightarrow> bool" where
  "is_digit c = (c \<in> set ''0123456789'')"

text \<open>\<^verbatim>\<open>Validators.pattern(/^\d{10,15}$/)\<close>\<close>

definition phone_pattern :: "string \<Rightarrow> bool" where
  "phone_pattern v =
     (if v = [] then True else 10 \<le> length v \<and> length v \<le> 15 \<and> list_all is_digit v)"

definition email_validator :: "platform \<Rightarrow> string option \<Rightarrow> bool" where
  "email_validator P v =
     (case v of None \<Rightarrow> True | Some e \<Rightarrow> if e = [] then True else email_pattern P e)"

definition min_validator :: "number \<Rightarrow> number \<Rightarrow> bool" where
  "min_validator m v = (\<not> v < m)"

text \<open>\<^verbatim>\<open>this.form.invalid\<close>: some control fails one of its validators.\<close>

definition form_invalid :: "platform \<Rightarrow> form_value \<Rightarrow> bool" where
  "form_invalid P v =
     (\<not> (required (name v) \<and> maxLength 100 (name v)
        \<and> required (phone v) \<and> phone_pattern (phone v)
        \<and> email_validator P (email v)
        \<and> required (nid v) \<and> maxLength 30 (nid v)
        \<and> required (dob v)
        \<and> required (address v) \<and> maxLength 250 (address v)
        \<and> required (qualification v) \<and> maxLength 120 (qualification v)
        \<and> min_validator 0 (experience v)
        \<and> min_validator 0 (salary v)))"

text \<open>\<^verbatim>\<open>form.markAllAsTouched()\<close>\<close>

definition markAllAsTouched :: "form_state \<Rightarrow> form_state" where
  "markAllAsTouched f = f\<lparr>touched := (\<lambda>c. True)\<rparr>"

text \<open>
  \<^verbatim>\<open>form.reset(v)\<close>: every control takes its value from \<open>v\<close> and is marked untouched.
\<close>

definition form_reset :: "form_value \<Rightarrow> form_state \<Rightarrow> form_state" where
  "form_reset v f = f\<lparr>fvalue := v, touched := (\<lambda>c. False)\<rparr>"

text \<open>The object literal that \<^verbatim>\<open>resetForm\<close> passes to \<^verbatim>\<open>form.reset\<close>.\<close>

definition defaults :: form_value where
  "defaults =
     \<lparr>name = '''', phone = '''', email = Some '''', nid = '''', dob = '''', address = '''',
      qualification = '''', religion = Some '''', experience = 0, lastWorkPlace = Some '''',
      salary = 0\<rparr>"

section \<open>The operations of the component\<close>

definition LS_KEY :: string where
  "LS_KEY = ''employees''"

text \<open>
  \<^verbatim>\<open>resetForm\<close>. The two file inputs it clears belong to the view and are not part of
  the state.
\<close>

definition resetForm :: "app \<Rightarrow> app" where
  "resetForm s =
     s\<lparr>form := form_reset defaults (form s),
       photoPreview := None,
       docs := [],
       editingIndex := None\<rparr>"

text \<open>
  \<^verbatim>\<open>saveEmployees\<close>: \<^verbatim>\<open>localStorage.setItem(LS_KEY, JSON.stringify(employees()))\<close>. The
  write is taken to succeed; the program has no handler for a write that the browser
  refuses.
\<close>

definition saveEmployees :: "platform \<Rightarrow> app \<Rightarrow> app" where
  "saveEmployees P s =
     s\<lparr>localStorage := (localStorage s)(LS_KEY \<mapsto> JSON_stringify P (employees s))\<rparr>"

text \<open>
  \<^verbatim>\<open>loadEmployees\<close>. The outcome of a block of statements is \<open>Inr\<close> of the state it
  leaves, or \<open>Inl\<close> of the error it throws. \<open>load_try\<close> is the \<^verbatim>\<open>try\<close> block:
  \<^verbatim>\<open>JSON.parse\<close> may throw in it. In \<open>loadEmployees\<close>, \<^verbatim>\<open>!raw\<close> holds for \<^verbatim>\<open>null\<close> and for
  the empty string, and the \<open>Inl\<close> branch is the \<^verbatim>\<open>catch\<close> block.
\<close>

definition load_try :: "platform \<Rightarrow> string \<Rightarrow> app \<Rightarrow> js_error + app" where
  "load_try P raw s =
     (case JSON_parse P raw of
        Inl e \<Rightarrow> Inl e
      | Inr data \<Rightarrow> Inr (s\<lparr>employees := (case data of JArray xs \<Rightarrow> xs | JOther \<Rightarrow> [])\<rparr>))"

definition loadEmployees :: "platform \<Rightarrow> app \<Rightarrow> js_error + app" where
  "loadEmployees P s =
     (case localStorage s LS_KEY of
        None \<Rightarrow> Inr (s\<lparr>employees := []\<rparr>)
      | Some raw \<Rightarrow>
          if raw = [] then Inr (s\<lparr>employees := []\<rparr>)
          else
            (case load_try P raw s of
               Inl e \<Rightarrow> Inr (s\<lparr>employees := []\<rparr>)
             | Inr s' \<Rightarrow> Inr s'))"

text \<open>
  The object literal \<^verbatim>\<open>{...this.form.value, photoDataUrl: this.photoPreview(),
  documents: this.docs()}\<close> of \<^verbatim>\<open>addEmployee\<close> and \<^verbatim>\<open>updateEmployee\<close>.
\<close>

definition merged :: "app \<Rightarrow> employee" where
  "merged s =
     form_value.extend (fvalue (form s))
       \<lparr>photoDataUrl = photoPreview s, documents = docs s\<rparr>"

definition addEmployee :: "platform \<Rightarrow> app \<Rightarrow> app" where
  "addEmployee P s =
     (if form_invalid P (fvalue (form s)) then s\<lparr>form := markAllAsTouched (form s)\<rparr>
      else resetForm (saveEmployees P (s\<lparr>employees := Some (merged s) # employees s\<rparr>)))"

definition updateEmployee :: "platform \<Rightarrow> app \<Rightarrow> app" where
  "updateEmployee P s =
     (if form_invalid P (fvalue (form s)) then s\<lparr>form := markAllAsTouched (form s)\<rparr>
      else
        (case editingIndex s of
           None \<Rightarrow> s
         | Some idx \<Rightarrow>
             if idx < 0 then s
             else
               resetForm
                 (saveEmployees P (s\<lparr>employees := js_assign (employees s) idx (merged s)\<rparr>))))"

text \<open>
  \<^verbatim>\<open>editEmployee\<close>. \<^verbatim>\<open>!emp\<close> holds when the element is \<^verbatim>\<open>undefined\<close> or \<^verbatim>\<open>null\<close>. The
  scrolling of the window is an effect on the view only.
\<close>

definition editEmployee :: "int \<Rightarrow> app \<Rightarrow> app" where
  "editEmployee index s =
     (case js_index (employees s) index of
        None \<Rightarrow> s
      | Some emp \<Rightarrow>
          s\<lparr>form :=
              form_reset
                \<lparr>name = name emp, phone = phone emp,
                 email = Some (case email emp of None \<Rightarrow> '''' | Some e \<Rightarrow> e),
                 nid = nid emp, dob = dob emp, address = address emp,
                 qualification = qualification emp,
                 religion = Some (case religion emp of None \<Rightarrow> '''' | Some r \<Rightarrow> r),
                 experience = experience emp,
                 lastWorkPlace = Some (case lastWorkPlace emp of None \<Rightarrow> '''' | Some w \<Rightarrow> w),
                 salary = salary emp\<rparr>
                (form s),
            photoPreview := photoDataUrl emp,
            docs := documents emp,
            editingIndex := Some index\<rparr>)"

definition deleteEmployee :: "platform \<Rightarrow> int \<Rightarrow> app \<Rightarrow> app" where
  "deleteEmployee P index s =
     (let s' = saveEmployees P (s\<lparr>employees := js_splice (employees s) index 1\<rparr>)
      in if editingIndex s' = Some index then resetForm s' else s')"

section \<open>Formatting helpers\<close>

text \<open>
  The integer logarithm: the number of times \<open>n\<close> can be divided by \<open>k\<close> before it falls
  below \<open>k\<close>. It is the value of \<^verbatim>\<open>Math.floor(Math.log(n) / Math.log(k))\<close> over the real
  numbers (\<open>floor_log_eq_floor_ln\<close> below), which the floating-point computation of the
  platform gives wherever its rounding does not cross an integer.
\<close>

function floor_log :: "nat \<Rightarrow> nat \<Rightarrow> nat" where
  "floor_log k n = (if k < 2 \<or> n < k then 0 else Suc (floor_log k (n div k)))"
  by pat_completeness auto
termination
  by (relation "measure snd") auto

declare floor_log.simps [simp del]

text \<open>The decimal digits of a natural number, most significant first.\<close>

definition digit_char :: "nat \<Rightarrow> char" where
  "digit_char d = ''0123456789'' ! d"

fun digits :: "nat \<Rightarrow> string" where
  "digits n = (if n < 10 then [digit_char n] else digits (n div 10) @ [digit_char (n mod 10)])"

declare digits.simps [simp del]

text \<open>
  \<^verbatim>\<open>x.toFixed(f)\<close> (ECMAScript, \<^verbatim>\<open>Number.prototype.toFixed\<close>) for a number below
  \<open>10\<^sup>2\<^sup>1\<close> in absolute value: \<open>n\<close> is the integer for which \<open>n / 10\<^sup>f\<close> is closest to
  \<open>x\<close>, the larger one of two; its digits are padded with zeros to \<open>f + 1\<close> places and
  the point stands before the last \<open>f\<close>. (From \<open>10\<^sup>2\<^sup>1\<close> on JavaScript prints an
  exponent.)
\<close>

definition toFixed :: "real \<Rightarrow> nat \<Rightarrow> string" where
  "toFixed x f =
     (let n = nat \<lfloor>\<bar>x\<bar> * 10 ^ f + 1 / 2\<rfloor>;
          m = digits n;
          m = (if f = 0 then m
               else
                 (let m = replicate (f + 1 - length m) (CHR ''0'') @ m;
                      k = length m
                  in take (k - f) m @ ''.'' @ drop (k - f) m))
      in if x < 0 then ''-'' @ m else m)"

definition sizes :: "string list" where
  "sizes = [''B'', ''KB'', ''MB'', ''GB'', ''TB'']"

text \<open>
  \<^verbatim>\<open>formatBytes\<close>, on a non-negative integer. The division of an integer by a power of
  1024 is exact in floating point, so \<open>val\<close> is the real quotient. \<^verbatim>\<open>sizes[i]\<close> beyond
  the array is \<^verbatim>\<open>undefined\<close>, which the template literal prints as that word.
\<close>

definition formatBytes :: "platform \<Rightarrow> nat \<Rightarrow> string" where
  "formatBytes P bytes =
     (if bytes = 0 then ''0 B''
      else
        (let k = 1024;
             i = floor_log_quotient P bytes k;
             val = real bytes / real k ^ i
         in toFixed val (if 10 \<le> val \<or> i = 0 then 0 else 1) @ '' '' @
            (if i < length sizes then sizes ! i else ''undefined'')))"

text \<open>
  \<^verbatim>\<open>s.split(sep)\<close> for a separator of one character: the pieces between the
  separators, empty pieces included; the empty string gives one empty piece.
\<close>

fun js_split :: "char \<Rightarrow> string \<Rightarrow> string list" where
  "js_split sep [] = [[]]"
| "js_split sep (c # cs) =
     (if c = sep then [] # js_split sep cs
      else (case js_split sep cs of [] \<Rightarrow> [[c]] | w # ws \<Rightarrow> (c # w) # ws))"

text \<open>
  \<^verbatim>\<open>initials\<close>, of the name \<open>nm\<close>. \<^verbatim>\<open>name || ''\<close> is the name itself for a string;
  \<^verbatim>\<open>filter(Boolean)\<close> keeps the non-empty strings; \<^verbatim>\<open>slice(0, 2)\<close> takes the first two;
  \<^verbatim>\<open>s[0]\<close> is \<^verbatim>\<open>undefined\<close> for the empty string only; \<^verbatim>\<open>join('')\<close> concatenates.
\<close>

definition initials :: "platform \<Rightarrow> string \<Rightarrow> string" where
  "initials P nm =
     concat
       (map (\<lambda>s. case s of [] \<Rightarrow> [] | c # cs \<Rightarrow> toUpperCase P c)
          (take 2 (filter (\<lambda>s. s \<noteq> []) (js_split (CHR '' '') nm))))"

text \<open>
  The description of \<open>initials\<close> read word for word, for a given notion of separator:
  split the name at every separator, drop the empty tokens, take the first two tokens,
  take the first character of each, uppercase it, concatenate.
\<close>

fun split_at :: "(char \<Rightarrow> bool) \<Rightarrow> string \<Rightarrow> string list" where
  "split_at is_sep [] = [[]]"
| "split_at is_sep (c # cs) =
     (if is_sep c then [] # split_at is_sep cs
      else (case split_at is_sep cs of [] \<Rightarrow> [[c]] | w # ws \<Rightarrow> (c # w) # ws))"

definition drop_empty :: "string list \<Rightarrow> string list" where
  "drop_empty ts = filter (\<lambda>t. t \<noteq> []) ts"

definition initials_described :: "(char \<Rightarrow> bool) \<Rightarrow> platform \<Rightarrow> string \<Rightarrow> string" where
  "initials_described is_sep P nm =
     concat (map (\<lambda>t. toUpperCase P (hd t)) (take 2 (drop_empty (split_at is_sep nm))))"

text \<open>Whitespace: space, tab, line feed, vertical tab, form feed, carriage return.\<close>

definition is_whitespace :: "char \<Rightarrow> bool" where
  "is_whitespace c = (c \<in> set [CHR '' '', CHR 0x09, CHR 0x0A, CHR 0x0B, CHR 0x0C, CHR 0x0D])"

definition is_space :: "char \<Rightarrow> bool" where
  "is_space c = (c = CHR '' '')"

section \<open>Example data\<close>

text \<open>
  Three stored employees; a platform whose \<^verbatim>\<open>JSON\<close> functions know the texts used below,
  whose \<^verbatim>\<open>toUpperCase\<close> is the one of the ASCII letters and whose logarithms are exact;
  a state that holds the three employees with an empty form, and a state with a filled
  form.
\<close>

definition sample_upper :: "char \<Rightarrow> string" where
  "sample_upper c =
     (case map_of (zip ''abcdefghijklmnopqrstuvwxyz'' ''ABCDEFGHIJKLMNOPQRSTUVWXYZ'') c of
        None \<Rightarrow> [c]
      | Some u \<Rightarrow> [u])"

definition jane :: employee where
  "jane =
     \<lparr>name = ''Jane Doe'', phone = ''01712345678'', email = Some ''jane@example.com'',
      nid = ''1990123456'', dob = ''1990-01-31'', address = ''12 Lake Road'',
      qualification = ''BSc'', religion = None, experience = 3,
      lastWorkPlace = Some ''Acme'', salary = 52000, photoDataUrl = None,
      documents = [\<lparr>doc_name = ''cv.pdf'', doc_size = 1536\<rparr>]\<rparr>"

definition omar :: employee where
  "omar =
     \<lparr>name = ''Omar Faruk'', phone = ''8801812345678'', email = None,
      nid = ''7788990011'', dob = ''1985-07-15'', address = ''4 Hill Street'',
      qualification = ''MBA'', religion = Some ''Islam'', experience = 10,
      lastWorkPlace = None, salary = 91000,
      photoDataUrl = Some ''data:image/png;base64,AAAA'', documents = []\<rparr>"

definition rina :: employee where
  "rina =
     \<lparr>name = ''Rina Das'', phone = ''01912345678'', email = Some ''rina@example.com'',
      nid = ''5566778899'', dob = ''1995-11-02'', address = ''9 River View'',
      qualification = ''Diploma'', religion = None, experience = 1,
      lastWorkPlace = None, salary = 30000, photoDataUrl = None, documents = []\<rparr>"

definition sample_platform :: platform where
  "sample_platform =
     \<lparr>email_pattern = (\<lambda>e. CHR ''@'' \<in> set e),
      JSON_stringify = (\<lambda>xs. if xs = [] then ''[]'' else ''[{},{},{}]''),
      JSON_parse =
        (\<lambda>raw. if raw = ''[]'' then Inr (JArray [])
               else if raw = ''[{},{},{}]'' then Inr (JArray [Some jane, Some omar, Some rina])
               else if raw = ''{}'' then Inr JOther
               else Inl SyntaxError),
      toUpperCase = sample_upper,
      floor_log_quotient = (\<lambda>n k. floor_log k n)\<rparr>"

definition sample_app :: app where
  "sample_app =
     \<lparr>form = \<lparr>fvalue = defaults, touched = (\<lambda>c. False)\<rparr>,
      employees = [Some jane, Some omar, Some rina],
      editingIndex = None, photoPreview = None, docs = [],
      localStorage = [LS_KEY \<mapsto> ''[{},{},{}]'']\<rparr>"

definition draft_app :: app where
  "draft_app =
     sample_app
       \<lparr>form :=
          \<lparr>fvalue =
             \<lparr>name = ''Anik Roy'', phone = ''01512345678'', email = Some '''',
              nid = ''1122334455'', dob = ''1992-03-09'', address = ''7 Mill Lane'',
              qualification = ''BA'', religion = Some '''', experience = 2,
              lastWorkPlace = Some '''', salary = 41000\<rparr>,
           touched = (\<lambda>c. c = Name)\<rparr>,
        photoPreview := Some ''data:image/png;base64,BBBB'',
        docs := [\<lparr>doc_name = ''nid.pdf'', doc_size = 2048\<rparr>]\<rparr>"

text \<open>
  The state after the third employee was opened for editing and the first one was then
  deleted: the index being edited is still 2, and the list has two elements.
\<close>

definition stale :: app where
  "stale = deleteEmployee sample_platform 0 (editEmployee 2 sample_app)"

section \<open>Facts about the array operations and the parts of the state\<close>

lemma js_splice_one_in_range:
  assumes "0 \<le> i" and "i < int (length xs)"
  shows "js_splice xs i 1 = take (nat i) xs @ drop (Suc (nat i)) xs"
proof -
  from assms have "nat (i + 1) = Suc (nat i)" by simp
  with assms show ?thesis by (simp add: js_splice_def Let_def)
qed

lemma js_splice_one_beyond:
  assumes "int (length xs) \<le> i"
  shows "js_splice xs i 1 = xs"
  using assms by (simp add: js_splice_def Let_def)

lemma js_splice_one_negative:
  assumes "i < 0" and "xs \<noteq> []"
  shows "length (js_splice xs i 1) = length xs - 1"
  using assms by (cases "int (length xs) + i \<le> 0") (auto simp add: js_splice_def Let_def)

lemma js_assign_in_range:
  assumes "0 \<le> i" and "i < int (length xs)"
  shows "js_assign xs i v = xs[nat i := Some v]"
proof -
  from assms have "nat i < length xs" by simp
  with assms show ?thesis by (simp add: js_assign_def)
qed

lemma js_assign_beyond:
  assumes "int (length xs) \<le> i"
  shows "length (js_assign xs i v) = nat i + 1"
  using assms by (auto simp add: js_assign_def)

lemma merged_fields:
  "merged s =
     \<lparr>name = name (fvalue (form s)), phone = phone (fvalue (form s)),
      email = email (fvalue (form s)), nid = nid (fvalue (form s)),
      dob = dob (fvalue (form s)), address = address (fvalue (form s)),
      qualification = qualification (fvalue (form s)), religion = religion (fvalue (form s)),
      experience = experience (fvalue (form s)),
      lastWorkPlace = lastWorkPlace (fvalue (form s)), salary = salary (fvalue (form s)),
      photoDataUrl = photoPreview s, documents = docs s\<rparr>"
  by (simp add: merged_def form_value.defs)

lemma employees_resetForm: "employees (resetForm s) = employees s"
  by (simp add: resetForm_def)

lemma employees_saveEmployees: "employees (saveEmployees P s) = employees s"
  by (simp add: saveEmployees_def)

lemma employees_deleteEmployee:
  "employees (deleteEmployee P index s) = js_splice (employees s) index 1"
  by (simp add: deleteEmployee_def Let_def employees_resetForm employees_saveEmployees)

lemma form_invalid_defaults: "form_invalid P defaults"
  by (simp add: form_invalid_def defaults_def required_def)

lemma draft_app_valid: "\<not> form_invalid sample_platform (fvalue (form draft_app))"
  by (simp add: draft_app_def form_invalid_def required_def maxLength_def phone_pattern_def
      is_digit_def email_validator_def min_validator_def)

lemma stale_employees: "employees stale = [Some omar, Some rina]"
  by (simp add: stale_def employees_deleteEmployee js_splice_def editEmployee_def js_index_def
      sample_app_def)

lemma stale_editingIndex: "editingIndex stale = Some 2"
  by (simp add: stale_def deleteEmployee_def Let_def saveEmployees_def editEmployee_def
      js_index_def sample_app_def)

lemma stale_fvalue:
  "fvalue (form stale) =
     \<lparr>name = ''Rina Das'', phone = ''01912345678'', email = Some ''rina@example.com'',
      nid = ''5566778899'', dob = ''1995-11-02'', address = ''9 River View'',
      qualification = ''Diploma'', religion = Some '''', experience = 1,
      lastWorkPlace = Some '''', salary = 30000\<rparr>"
  by (simp add: stale_def deleteEmployee_def Let_def saveEmployees_def editEmployee_def
      js_index_def sample_app_def form_reset_def rina_def)

lemma stale_valid: "\<not> form_invalid sample_platform (fvalue (form stale))"
  by (simp add: stale_fvalue form_invalid_def required_def maxLength_def phone_pattern_def
      is_digit_def email_validator_def sample_platform_def min_validator_def)

section \<open>Submitting an update\<close>

text \<open>
  What \<^verbatim>\<open>updateEmployee\<close> does on a valid form, by the index being edited: an index
  within the list replaces the record there and keeps the length; a negative index (and
  no index) leaves the list as it is; an index at or beyond the length makes the list
  longer.
\<close>

lemma updateEmployee_in_range:
  assumes "\<not> form_invalid P (fvalue (form s))" and "editingIndex s = Some i"
    and "0 \<le> i" and "i < int (length (employees s))"
  shows "employees (updateEmployee P s) = (employees s)[nat i := Some (merged s)]
       \<and> length (employees (updateEmployee P s)) = length (employees s)"
  using assms
  by (simp add: updateEmployee_def js_assign_in_range employees_resetForm employees_saveEmployees)

lemma updateEmployee_negative:
  assumes "editingIndex s = None \<or> (\<exists>i < 0. editingIndex s = Some i)"
  shows "employees (updateEmployee P s) = employees s"
  using assms by (auto simp add: updateEmployee_def)

lemma updateEmployee_beyond_end:
  assumes "\<not> form_invalid P (fvalue (form s))" and "editingIndex s = Some i"
    and "int (length (employees s)) \<le> i"
  shows "length (employees (updateEmployee P s)) = nat i + 1"
  using assms
  by (simp add: updateEmployee_def js_assign_beyond employees_resetForm employees_saveEmployees)

text \<open>
  C1. The guard of \<^verbatim>\<open>updateEmployee\<close> stops a missing and a negative index only. In the
  state \<open>stale\<close> the form is valid and the index being edited is 2, which is the length of
  the list and so outside of it; the update is not a no-op there: it appends the record
  and the list grows from two elements to three.
\<close>

theorem updateEmployee_stale_index_grows:
  "employees stale = [Some omar, Some rina]
   \<and> editingIndex stale = Some 2
   \<and> \<not> form_invalid sample_platform (fvalue (form stale))
   \<and> employees (updateEmployee sample_platform stale) =
       [Some omar, Some rina, Some (merged stale)]"
  by (simp add: stale_employees stale_editingIndex stale_valid updateEmployee_def js_assign_def
      employees_resetForm employees_saveEmployees)

section \<open>Deleting a record\<close>

text \<open>
  What \<^verbatim>\<open>deleteEmployee\<close> does by the index it is given. It has no guard of its own and
  relies on \<^verbatim>\<open>splice\<close>. At or beyond the length of the list nothing is removed: the list
  is written to the storage as it is, and the draft session is reset if the index happens
  to be the one being edited. Below 0 the index counts from the end of the list, and a
  record is removed from every list that has one.
\<close>

lemma deleteEmployee_beyond_end:
  assumes "int (length (employees s)) \<le> i"
  shows "employees (deleteEmployee P i s) = employees s
       \<and> deleteEmployee P i s =
           (if editingIndex s = Some i then resetForm (saveEmployees P s)
            else saveEmployees P s)"
proof -
  from assms have "js_splice (employees s) i 1 = employees s"
    by (rule js_splice_one_beyond)
  then show ?thesis
    by (simp add: deleteEmployee_def Let_def saveEmployees_def resetForm_def)
qed

lemma deleteEmployee_negative:
  assumes "i < 0" and "employees s \<noteq> []"
  shows "length (employees (deleteEmployee P i s)) = length (employees s) - 1"
  using assms by (simp add: employees_deleteEmployee js_splice_one_negative)

text \<open>
  C2. The index \<open>-1\<close> is outside of every record list, and \<^verbatim>\<open>deleteEmployee\<close> is not a
  no-op there: on the three records of \<open>sample_app\<close> it deletes the last one, so the
  record list is not unchanged. (\<^verbatim>\<open>updateEmployee\<close> and \<^verbatim>\<open>editEmployee\<close> do nothing on a
  negative index.)
\<close>

theorem deleteEmployee_negative_index_deletes:
  "\<not> (0 \<le> (- 1 :: int) \<and> - 1 < int (length (employees sample_app)))
   \<and> employees (deleteEmployee sample_platform (- 1) sample_app) = [Some jane, Some omar]
   \<and> employees (deleteEmployee sample_platform (- 1) sample_app) \<noteq> employees sample_app"
  by (simp add: employees_deleteEmployee js_splice_def sample_app_def)

text \<open>
  C4. For every index \<open>i\<close> within the record list, \<^verbatim>\<open>deleteEmployee\<close> removes the record
  at \<open>i\<close> and no other: the list is one shorter, the records before \<open>i\<close> stay where they
  are and every record after \<open>i\<close> moves down by one. If \<open>i\<close> was the index being edited,
  the draft session is that of a new record: no index being edited, no photo preview, no
  staged documents, and the form reset to its defaults.
\<close>

theorem deleteEmployee_in_range:
  assumes "0 \<le> i" and "i < int (length (employees s))"
  shows "employees (deleteEmployee P i s) =
           take (nat i) (employees s) @ drop (nat i + 1) (employees s)
       \<and> length (employees (deleteEmployee P i s)) + 1 = length (employees s)
       \<and> (\<forall>j < nat i. employees (deleteEmployee P i s) ! j = employees s ! j)
       \<and> (\<forall>j. nat i \<le> j \<and> j + 1 < length (employees s) \<longrightarrow>
             employees (deleteEmployee P i s) ! j = employees s ! (j + 1))
       \<and> (editingIndex s = Some i \<longrightarrow>
             editingIndex (deleteEmployee P i s) = None
           \<and> photoPreview (deleteEmployee P i s) = None
           \<and> docs (deleteEmployee P i s) = []
           \<and> fvalue (form (deleteEmployee P i s)) =
               \<lparr>name = '''', phone = '''', email = Some '''', nid = '''', dob = '''',
                address = '''', qualification = '''', religion = Some '''', experience = 0,
                lastWorkPlace = Some '''', salary = 0\<rparr>
           \<and> (\<forall>c. \<not> touched (form (deleteEmployee P i s)) c))"
proof -
  let ?xs = "employees s"
  let ?s' = "deleteEmployee P i s"
  from assms have n: "nat i < length ?xs" by simp
  have list: "employees ?s' = take (nat i) ?xs @ drop (nat i + 1) ?xs"
    using assms by (simp add: employees_deleteEmployee js_splice_one_in_range)
  have len: "length (employees ?s') + 1 = length ?xs"
    using n by (simp add: list)
  have before: "\<forall>j < nat i. employees ?s' ! j = ?xs ! j"
    using n by (simp add: list nth_append)
  have after: "\<forall>j. nat i \<le> j \<and> j + 1 < length ?xs \<longrightarrow> employees ?s' ! j = ?xs ! (j + 1)"
    using n by (auto simp add: list nth_append)
  have session: "editingIndex s = Some i \<longrightarrow>
             editingIndex ?s' = None
           \<and> photoPreview ?s' = None
           \<and> docs ?s' = []
           \<and> fvalue (form ?s') =
               \<lparr>name = '''', phone = '''', email = Some '''', nid = '''', dob = '''',
                address = '''', qualification = '''', religion = Some '''', experience = 0,
                lastWorkPlace = Some '''', salary = 0\<rparr>
           \<and> (\<forall>c. \<not> touched (form ?s') c)"
    by (simp add: deleteEmployee_def Let_def saveEmployees_def resetForm_def form_reset_def
        defaults_def)
  from list len before after session show ?thesis by blast
qed

theorem deleteEmployee_in_range_witness:
  "(0::int) \<le> 1
   \<and> 1 < int (length (employees (editEmployee 1 sample_app)))
   \<and> editingIndex (editEmployee 1 sample_app) = Some 1
   \<and> employees (deleteEmployee sample_platform 1 (editEmployee 1 sample_app)) =
       [Some jane, Some rina]
   \<and> editingIndex (deleteEmployee sample_platform 1 (editEmployee 1 sample_app)) = None
   \<and> photoPreview (deleteEmployee sample_platform 1 (editEmployee 1 sample_app)) = None
   \<and> docs (deleteEmployee sample_platform 1 (editEmployee 1 sample_app)) = []"
proof -
  have e: "employees (editEmployee 1 sample_app) = [Some jane, Some omar, Some rina]"
    by (simp add: editEmployee_def js_index_def sample_app_def)
  have i: "editingIndex (editEmployee 1 sample_app) = Some 1"
    by (simp add: editEmployee_def js_index_def sample_app_def)
  have h: "1 < int (length (employees (editEmployee 1 sample_app)))"
    by (simp add: e)
  from deleteEmployee_in_range [OF _ h, of sample_platform] e i show ?thesis
    by simp
qed

section \<open>Submitting a new record\<close>

text \<open>
  C3. For every state whose form is valid (whatever the index being edited is, so also
  when there is none), \<^verbatim>\<open>addEmployee\<close> puts the new record, made of the form's values,
  the photo preview and the staged documents, in front of the record list: the list is
  one longer, the new record is at position 0, and every record that was at position \<open>j\<close>
  is at position \<open>j + 1\<close>.
\<close>

theorem addEmployee_prepends:
  assumes "\<not> form_invalid P (fvalue (form s))"
  shows "employees (addEmployee P s) =
           Some \<lparr>name = name (fvalue (form s)), phone = phone (fvalue (form s)),
                 email = email (fvalue (form s)), nid = nid (fvalue (form s)),
                 dob = dob (fvalue (form s)), address = address (fvalue (form s)),
                 qualification = qualification (fvalue (form s)),
                 religion = religion (fvalue (form s)),
                 experience = experience (fvalue (form s)),
                 lastWorkPlace = lastWorkPlace (fvalue (form s)),
                 salary = salary (fvalue (form s)),
                 photoDataUrl = photoPreview s, documents = docs s\<rparr> # employees s
       \<and> length (employees (addEmployee P s)) = length (employees s) + 1
       \<and> (\<forall>j < length (employees s). employees (addEmployee P s) ! (j + 1) = employees s ! j)"
  using assms
  by (simp add: addEmployee_def merged_fields employees_resetForm employees_saveEmployees)

theorem addEmployee_prepends_witness:
  "\<not> form_invalid sample_platform (fvalue (form draft_app))
   \<and> editingIndex draft_app = None
   \<and> employees (addEmployee sample_platform draft_app) =
       [Some \<lparr>name = ''Anik Roy'', phone = ''01512345678'', email = Some '''',
              nid = ''1122334455'', dob = ''1992-03-09'', address = ''7 Mill Lane'',
              qualification = ''BA'', religion = Some '''', experience = 2,
              lastWorkPlace = Some '''', salary = 41000,
              photoDataUrl = Some ''data:image/png;base64,BBBB'',
              documents = [\<lparr>doc_name = ''nid.pdf'', doc_size = 2048\<rparr>]\<rparr>,
        Some jane, Some omar, Some rina]"
  using addEmployee_prepends [OF draft_app_valid] draft_app_valid
  by (simp add: draft_app_def sample_app_def)

section \<open>Submitting an invalid form\<close>

text \<open>
  C5. For every state whose form is invalid, \<^verbatim>\<open>addEmployee\<close> and \<^verbatim>\<open>updateEmployee\<close> save
  nothing: the record list and the storage are as before, the draft session (the index
  being edited, the photo preview, the staged documents, the form's values) is as
  before, and every control of the form is marked as touched.
\<close>

theorem invalid_submission_blocked:
  assumes "form_invalid P (fvalue (form s))"
  shows "\<forall>submit \<in> {addEmployee, updateEmployee}.
           employees (submit P s) = employees s
         \<and> localStorage (submit P s) = localStorage s
         \<and> editingIndex (submit P s) = editingIndex s
         \<and> photoPreview (submit P s) = photoPreview s
         \<and> docs (submit P s) = docs s
         \<and> fvalue (form (submit P s)) = fvalue (form s)
         \<and> (\<forall>c. touched (form (submit P s)) c)"
  using assms by (simp add: addEmployee_def updateEmployee_def markAllAsTouched_def)

theorem invalid_submission_blocked_witness:
  "form_invalid sample_platform (fvalue (form sample_app))
   \<and> employees (addEmployee sample_platform sample_app) = [Some jane, Some omar, Some rina]
   \<and> employees (updateEmployee sample_platform sample_app) = [Some jane, Some omar, Some rina]
   \<and> localStorage (addEmployee sample_platform sample_app) = localStorage sample_app
   \<and> localStorage (updateEmployee sample_platform sample_app) = localStorage sample_app
   \<and> touched (form (addEmployee sample_platform sample_app)) Phone
   \<and> touched (form (updateEmployee sample_platform sample_app)) Phone"
proof -
  have h: "form_invalid sample_platform (fvalue (form sample_app))"
    by (simp add: sample_app_def form_invalid_defaults)
  from invalid_submission_blocked [OF h] h show ?thesis
    by (simp add: sample_app_def)
qed

section \<open>Starting an edit\<close>

text \<open>
  C10. For every index that is out of range of the record list, \<^verbatim>\<open>editEmployee\<close> changes
  nothing: the form, the photo preview, the staged documents and the index being edited,
  and with them the whole state, are as before.
\<close>

theorem editEmployee_out_of_range:
  "index < 0 \<or> int (length (employees s)) \<le> index \<Longrightarrow> editEmployee index s = s"
  by (auto simp: editEmployee_def js_index_def)

theorem editEmployee_out_of_range_witness:
  "(3 < (0::int) \<or> int (length (employees sample_app)) \<le> 3)
   \<and> editEmployee 3 sample_app = sample_app
   \<and> editEmployee (- 1) sample_app = sample_app"
  using editEmployee_out_of_range [of 3 sample_app]
    editEmployee_out_of_range [of "- 1" sample_app]
  by (simp add: sample_app_def)

section \<open>Loading\<close>

text \<open>
  C6. \<^verbatim>\<open>loadEmployees\<close> never raises: whatever the storage holds, it returns, and only
  the record list of the state changes. With no string under the key, with a string that
  \<^verbatim>\<open>JSON.parse\<close> rejects, and with a string whose parsed content is not a list, the
  record list is empty afterwards; with a string that parses to a list (such a string is
  not empty), the record list is that list.
\<close>

theorem loadEmployees_falls_back:
  "(\<exists>xs. loadEmployees P s = Inr (s\<lparr>employees := xs\<rparr>))
   \<and> (localStorage s LS_KEY = None \<longrightarrow> loadEmployees P s = Inr (s\<lparr>employees := []\<rparr>))
   \<and> (localStorage s LS_KEY = Some [] \<longrightarrow> loadEmployees P s = Inr (s\<lparr>employees := []\<rparr>))
   \<and> (\<forall>raw e. localStorage s LS_KEY = Some raw \<and> JSON_parse P raw = Inl e \<longrightarrow>
         loadEmployees P s = Inr (s\<lparr>employees := []\<rparr>))
   \<and> (\<forall>raw. localStorage s LS_KEY = Some raw \<and> JSON_parse P raw = Inr JOther \<longrightarrow>
         loadEmployees P s = Inr (s\<lparr>employees := []\<rparr>))
   \<and> (\<forall>raw xs. localStorage s LS_KEY = Some raw \<and> raw \<noteq> [] \<and> JSON_parse P raw = Inr (JArray xs) \<longrightarrow>
         loadEmployees P s = Inr (s\<lparr>employees := xs\<rparr>))"
  by (auto simp add: loadEmployees_def load_try_def split: option.splits sum.splits json.splits)

theorem loadEmployees_falls_back_witness:
  "loadEmployees sample_platform (sample_app\<lparr>employees := [], localStorage := Map.empty\<rparr>)
     = Inr (sample_app\<lparr>employees := [], localStorage := Map.empty\<rparr>)
   \<and> loadEmployees sample_platform (sample_app\<lparr>localStorage := [LS_KEY \<mapsto> ''[{},{'']\<rparr>)
     = Inr (sample_app\<lparr>employees := [], localStorage := [LS_KEY \<mapsto> ''[{},{'']\<rparr>)
   \<and> loadEmployees sample_platform (sample_app\<lparr>localStorage := [LS_KEY \<mapsto> ''{}'']\<rparr>)
     = Inr (sample_app\<lparr>employees := [], localStorage := [LS_KEY \<mapsto> ''{}'']\<rparr>)
   \<and> loadEmployees sample_platform (sample_app\<lparr>employees := []\<rparr>)
     = Inr sample_app"
  using loadEmployees_falls_back [of sample_platform "sample_app\<lparr>employees := [], localStorage := Map.empty\<rparr>"]
    loadEmployees_falls_back [of sample_platform "sample_app\<lparr>localStorage := [LS_KEY \<mapsto> ''[{},{'']\<rparr>"]
    loadEmployees_falls_back [of sample_platform "sample_app\<lparr>localStorage := [LS_KEY \<mapsto> ''{}'']\<rparr>"]
    loadEmployees_falls_back [of sample_platform "sample_app\<lparr>employees := []\<rparr>"]
  by (simp add: sample_app_def sample_platform_def)

section \<open>Formatting a byte count\<close>

lemma floor_log_bounds:
  assumes "2 \<le> k" and "0 < n"
  shows "k ^ floor_log k n \<le> n \<and> n < k ^ (floor_log k n + 1)"
  using assms
proof (induction k n rule: floor_log.induct)
  case (1 k n)
  show ?case
  proof (cases "n < k")
    case True
    with "1.prems" show ?thesis by (simp add: floor_log.simps [of k n])
  next
    case False
    with "1.prems" have pos: "0 < n div k" by (simp add: div_greater_zero_iff)
    from False "1.prems" have step: "floor_log k n = Suc (floor_log k (n div k))"
      by (simp add: floor_log.simps [of k n])
    from "1.IH" False "1.prems" pos
    have ih: "k ^ floor_log k (n div k) \<le> n div k \<and> n div k < k ^ (floor_log k (n div k) + 1)"
      by simp
    from ih have "k * k ^ floor_log k (n div k) \<le> k * (n div k)" by simp
    also have "\<dots> \<le> n" by simp
    finally have lower: "k ^ floor_log k n \<le> n" by (simp add: step)
    from ih have "Suc (n div k) \<le> k ^ (floor_log k (n div k) + 1)" by simp
    then have "k * Suc (n div k) \<le> k * k ^ (floor_log k (n div k) + 1)"
      by (rule mult_le_mono2)
    moreover have "n < k * Suc (n div k)"
    proof -
      have "n = k * (n div k) + n mod k" by simp
      moreover have "n mod k < k" using "1.prems" by simp
      ultimately have "n < k * (n div k) + k" by linarith
      then show ?thesis by simp
    qed
    ultimately have upper: "n < k ^ (floor_log k n + 1)" by (simp add: step)
    from lower upper show ?thesis ..
  qed
qed

lemma floor_log_unique:
  assumes "2 \<le> k" and "k ^ i \<le> n" and "n < k ^ (i + 1)"
  shows "floor_log k n = i"
proof -
  from assms have n: "0 < n" by (cases n) auto
  note b = floor_log_bounds [OF assms(1) n]
  from assms(1) have k1: "1 < k" by simp
  from b assms have "k ^ floor_log k n < k ^ (i + 1)" by linarith
  with k1 have a: "floor_log k n < i + 1" by (rule power_less_imp_less_exp)
  from b assms have "k ^ i < k ^ (floor_log k n + 1)" by linarith
  with k1 have "i < floor_log k n + 1" by (rule power_less_imp_less_exp)
  with a show ?thesis by simp
qed

lemma floor_log_eq_floor_ln:
  assumes "0 < n"
  shows "int (floor_log 1024 n) = \<lfloor>ln (real n) / ln 1024\<rfloor>"
proof -
  from floor_log_bounds [of 1024 n] assms
  have "1024 ^ floor_log 1024 n \<le> n" and "n < 1024 ^ (floor_log 1024 n + 1)"
    by simp_all
  then have "\<lfloor>log (real 1024) (real n)\<rfloor> = int (floor_log 1024 n)"
    by (rule floor_log_nat_eq_if) simp
  then show ?thesis by (simp add: log_def)
qed

lemma digit_char_code:
  assumes "d < 10"
  shows "of_char (digit_char d) = 48 + d"
proof -
  from assms have "d \<in> {0, 1, 2, 3, 4, 5, 6, 7, 8, 9}" by auto
  then show ?thesis
    by (elim insertE emptyE) (simp_all add: digit_char_def)
qed

text \<open>The digits of \<open>n\<close>, read as a decimal number, give \<open>n\<close>.\<close>

lemma digits_value:
  "fold (\<lambda>c a. 10 * a + (of_char c - 48)) (digits n) 0 = n"
proof (induction n rule: digits.induct)
  case (1 n)
  show ?case
  proof (cases "n < 10")
    case True
    then show ?thesis by (simp add: digits.simps [of n] digit_char_code)
  next
    case False
    moreover have "n mod 10 < 10" by simp
    ultimately show ?thesis using "1.IH"
      by (simp add: digits.simps [of n] digit_char_code)
  qed
qed

lemma digits_nonempty: "digits n \<noteq> []"
  by (simp add: digits.simps [of n])

lemma digits_small: "n < 10 \<Longrightarrow> digits n = [digit_char n]"
  by (simp add: digits.simps [of n])

lemma digits_large: "10 \<le> n \<Longrightarrow> digits n = digits (n div 10) @ [digit_char (n mod 10)]"
  by (simp add: digits.simps [of n])

lemma toFixed_no_decimals:
  assumes "0 \<le> x"
  shows "toFixed x 0 = digits (nat \<lfloor>x + 1 / 2\<rfloor>)"
  using assms by (simp add: toFixed_def Let_def)

lemma toFixed_one_decimal:
  assumes "0 \<le> x"
  shows "toFixed x 1 =
           digits (nat \<lfloor>x * 10 + 1 / 2\<rfloor> div 10) @ ''.'' @
           digits (nat \<lfloor>x * 10 + 1 / 2\<rfloor> mod 10)"
proof (cases "nat \<lfloor>x * 10 + 1 / 2\<rfloor> < 10")
  case True
  with assms show ?thesis
    by (simp add: toFixed_def Let_def digits_small digit_char_def)
next
  case False
  moreover have "nat \<lfloor>x * 10 + 1 / 2\<rfloor> mod 10 < 10"
    by simp
  ultimately show ?thesis using assms
    by (simp add: toFixed_def Let_def digits_large digits_small Suc_le_eq digits_nonempty)
qed

lemma formatBytes_positive:
  assumes "0 < n" and "floor_log_quotient P n 1024 = i"
  shows "formatBytes P n =
           toFixed (real n / 1024 ^ i) (if 10 \<le> real n / 1024 ^ i \<or> i = 0 then 0 else 1)
           @ '' '' @ (if i < 5 then sizes ! i else ''undefined'')"
  using assms by (simp add: formatBytes_def Let_def sizes_def)

text \<open>
  Where the platform computes the integer logarithm, the scaled value lies between 1 and
  1024, far below the numbers that \<^verbatim>\<open>toFixed\<close> prints with an exponent.
\<close>

lemma formatBytes_scaled_below_k:
  assumes "0 < n"
  shows "1 \<le> real n / 1024 ^ floor_log 1024 n \<and> real n / 1024 ^ floor_log 1024 n < 1024"
proof -
  from floor_log_bounds [of 1024 n] assms
  have "1024 ^ floor_log 1024 n \<le> n" and "n < 1024 ^ (floor_log 1024 n + 1)"
    by simp_all
  then have "(1024::real) ^ floor_log 1024 n \<le> real n"
    and "real n < 1024 ^ (floor_log 1024 n + 1)"
    by (metis of_nat_le_iff of_nat_numeral of_nat_power,
        metis of_nat_less_iff of_nat_numeral of_nat_power)
  then show ?thesis by (simp add: field_simps)
qed

lemma sample_platform_log: "floor_log_quotient sample_platform n k = floor_log k n"
  by (simp add: sample_platform_def)

text \<open>
  C8, as amended. \<open>formatBytes P 0\<close> is \<^verbatim>\<open>0 B\<close>. For every \<open>n\<close> from 1 to below \<open>1024\<^sup>5\<close>,
  let \<open>i\<close> be the largest unit among B, KB, MB, GB, TB with \<open>1024\<^sup>i \<le> n\<close>, and let the
  platform's \<^verbatim>\<open>Math.floor(Math.log(n) / Math.log(1024))\<close> be that \<open>i\<close>. Then \<open>formatBytes P n\<close>
  is \<open>n / 1024\<^sup>i\<close> rounded to the nearest integer (0 decimal places) when that number is at
  least 10 or the unit is bytes, and \<open>n / 1024\<^sup>i\<close> rounded to the nearest tenth and written
  with 1 decimal place otherwise, followed by a space and the unit. In particular 1024
  gives \<^verbatim>\<open>1.0 KB\<close>, 1536 gives \<^verbatim>\<open>1.5 KB\<close> and 10485760 gives \<^verbatim>\<open>10 MB\<close>.
\<close>

theorem formatBytes_rendering:
  "formatBytes P 0 = ''0 B''
   \<and> (\<forall>i < 5. 1024 ^ i \<le> n \<and> n < 1024 ^ (i + 1) \<and> floor_log_quotient P n 1024 = i \<longrightarrow>
         formatBytes P n =
           (if 10 \<le> real n / 1024 ^ i \<or> i = 0
            then digits (nat \<lfloor>real n / 1024 ^ i + 1 / 2\<rfloor>)
            else digits (nat \<lfloor>real n / 1024 ^ i * 10 + 1 / 2\<rfloor> div 10) @ ''.'' @
                 digits (nat \<lfloor>real n / 1024 ^ i * 10 + 1 / 2\<rfloor> mod 10))
           @ '' '' @ [''B'', ''KB'', ''MB'', ''GB'', ''TB''] ! i)
   \<and> (floor_log_quotient P 1024 1024 = 1 \<longrightarrow> formatBytes P 1024 = ''1.0 KB'')
   \<and> (floor_log_quotient P 1536 1024 = 1 \<longrightarrow> formatBytes P 1536 = ''1.5 KB'')
   \<and> (floor_log_quotient P 10485760 1024 = 2 \<longrightarrow> formatBytes P 10485760 = ''10 MB'')"
proof -
  have zero: "formatBytes P 0 = ''0 B''"
    by (simp add: formatBytes_def)
  have general: "formatBytes P n =
           (if 10 \<le> real n / 1024 ^ i \<or> i = 0
            then digits (nat \<lfloor>real n / 1024 ^ i + 1 / 2\<rfloor>)
            else digits (nat \<lfloor>real n / 1024 ^ i * 10 + 1 / 2\<rfloor> div 10) @ ''.'' @
                 digits (nat \<lfloor>real n / 1024 ^ i * 10 + 1 / 2\<rfloor> mod 10))
           @ '' '' @ [''B'', ''KB'', ''MB'', ''GB'', ''TB''] ! i"
    if i5: "i < 5" and lo: "1024 ^ i \<le> n" and q: "floor_log_quotient P n 1024 = i" for i
  proof -
    from lo have pos: "0 < n" by (cases n) auto
    have nonneg: "0 \<le> real n / 1024 ^ i" by simp
    from i5 nonneg show ?thesis
      by (simp add: formatBytes_positive [OF pos q] toFixed_no_decimals toFixed_one_decimal
          sizes_def del: One_nat_def)
  qed
  have ex1: "formatBytes P 1024 = ''1.0 KB''" if "floor_log_quotient P 1024 1024 = 1"
    using that
    by (simp add: formatBytes_def toFixed_def digits.simps digit_char_def sizes_def Let_def)
  have ex2: "formatBytes P 1536 = ''1.5 KB''" if "floor_log_quotient P 1536 1024 = 1"
    using that
    by (simp add: formatBytes_def toFixed_def digits.simps digit_char_def sizes_def Let_def)
  have ex3: "formatBytes P 10485760 = ''10 MB''" if "floor_log_quotient P 10485760 1024 = 2"
    using that
    by (simp add: formatBytes_def toFixed_def digits.simps digit_char_def sizes_def Let_def)
  from zero general ex1 ex2 ex3 show ?thesis by blast
qed

theorem formatBytes_rendering_witness:
  "(1024::nat) ^ 1 \<le> 1280 \<and> (1280::nat) < 1024 ^ (1 + 1)
   \<and> floor_log_quotient sample_platform 1280 1024 = 1
   \<and> formatBytes sample_platform 1280 = ''1.3 KB''
   \<and> floor_log_quotient sample_platform 1536 1024 = 1
   \<and> formatBytes sample_platform 1536 = ''1.5 KB''
   \<and> floor_log_quotient sample_platform 10485760 1024 = 2
   \<and> formatBytes sample_platform 10485760 = ''10 MB''"
proof -
  have q: "floor_log_quotient sample_platform 1280 1024 = 1"
    "floor_log_quotient sample_platform 1536 1024 = 1"
    "floor_log_quotient sample_platform 10485760 1024 = 2"
    by (simp_all add: sample_platform_log floor_log.simps)
  from formatBytes_rendering [of sample_platform 1280] q(1)
  have "formatBytes sample_platform 1280 =
      digits (nat \<lfloor>real 1280 / 1024 ^ 1 * 10 + 1 / 2\<rfloor> div 10) @ ''.'' @
      digits (nat \<lfloor>real 1280 / 1024 ^ 1 * 10 + 1 / 2\<rfloor> mod 10) @ '' '' @ ''KB''"
    by simp
  then have a: "formatBytes sample_platform 1280 = ''1.3 KB''"
    by (simp add: digits.simps digit_char_def)
  from formatBytes_rendering [of sample_platform 1280] q(2)
  have b: "formatBytes sample_platform 1536 = ''1.5 KB''"
    by blast
  from formatBytes_rendering [of sample_platform 1280] q(3)
  have c: "formatBytes sample_platform 10485760 = ''10 MB''"
    by blast
  from q a b c show ?thesis by simp
qed

text \<open>
  C8 as stated fails at 1024: the quotient of \<^verbatim>\<open>Math.log(1024)\<close> by itself is 1, the
  scaled value 1 is below 10 and the unit is not bytes, so it is written with one decimal
  place, \<^verbatim>\<open>1.0 KB\<close> and not \<^verbatim>\<open>1 KB\<close>.
\<close>

theorem formatBytes_1024_keeps_decimal:
  "floor_log_quotient sample_platform 1024 1024 = 1
   \<and> formatBytes sample_platform 1024 = ''1.0 KB''
   \<and> formatBytes sample_platform 1024 \<noteq> ''1 KB''"
  by (simp add: sample_platform_log floor_log.simps formatBytes_def toFixed_def digits.simps
      digit_char_def sizes_def Let_def)

section \<open>Initials of a name\<close>

lemma js_split_nonempty: "js_split sep s \<noteq> []"
  by (induction s) (auto split: list.splits)

lemma js_split_join: "concat (map (\<lambda>w. sep # w) (js_split sep s)) = sep # s"
  by (induction s) (auto split: list.splits)

lemma js_split_no_separator: "w \<in> set (js_split sep s) \<Longrightarrow> sep \<notin> set w"
  by (induction s arbitrary: w) (auto split: list.splits if_splits)

lemma js_split_space: "js_split (CHR '' '') s = split_at is_space s"
  by (induction s) (simp_all add: is_space_def)

lemma split_at_agree:
  assumes "\<forall>c \<in> set s. p c = q c"
  shows "split_at p s = split_at q s"
  using assms by (induction s) simp_all

lemma first_of_token:
  assumes "t \<in> set (take n (drop_empty ts))"
  shows "(case t of [] \<Rightarrow> [] | c # cs \<Rightarrow> f c) = f (hd t)"
proof -
  from assms have "t \<in> set (drop_empty ts)" by (rule in_set_takeD)
  then have "t \<noteq> []" by (simp add: drop_empty_def)
  then show ?thesis by (cases t) simp_all
qed

lemma initials_as_described: "initials P nm = initials_described is_space P nm"
proof -
  have "initials P nm =
      concat (map (\<lambda>s. case s of [] \<Rightarrow> [] | c # cs \<Rightarrow> toUpperCase P c)
          (take 2 (drop_empty (split_at is_space nm))))"
    by (simp only: initials_def js_split_space drop_empty_def)
  also have "map (\<lambda>s. case s of [] \<Rightarrow> [] | c # cs \<Rightarrow> toUpperCase P c)
          (take 2 (drop_empty (split_at is_space nm)))
        = map (\<lambda>t. toUpperCase P (hd t)) (take 2 (drop_empty (split_at is_space nm)))"
    by (rule map_cong [OF refl]) (rule first_of_token)
  also have "concat (map (\<lambda>t. toUpperCase P (hd t)) (take 2 (drop_empty (split_at is_space nm))))
        = initials_described is_space P nm"
    by (simp only: initials_described_def)
  finally show ?thesis .
qed

text \<open>
  C9, as amended. For every name, \<open>initials\<close> is the description read with the space
  character as the only separator: split the name at every space, drop the empty tokens,
  take the first two tokens, take the first character of each, uppercase it, concatenate.
  Where the only whitespace in the name is the space character, this is the description
  read with whitespace as separator. The empty name gives the empty string; \<^verbatim>\<open>Jane Doe\<close>
  gives the uppercased \<^verbatim>\<open>J\<close> and \<^verbatim>\<open>D\<close>, and \<^verbatim>\<open>Madonna\<close> the uppercased \<^verbatim>\<open>M\<close>.
\<close>

theorem initials_splits_at_spaces:
  "initials P nm = initials_described is_space P nm
   \<and> ((\<forall>c \<in> set nm. is_whitespace c \<longrightarrow> c = CHR '' '') \<longrightarrow>
        initials P nm = initials_described is_whitespace P nm)
   \<and> initials P '''' = ''''
   \<and> initials P ''Jane Doe'' = toUpperCase P (CHR ''J'') @ toUpperCase P (CHR ''D'')
   \<and> initials P ''Madonna'' = toUpperCase P (CHR ''M'')"
proof -
  have a: "initials P nm = initials_described is_space P nm"
    by (rule initials_as_described)
  have b: "initials P nm = initials_described is_whitespace P nm"
    if "\<forall>c \<in> set nm. is_whitespace c \<longrightarrow> c = CHR '' ''"
  proof -
    from that have "\<forall>c \<in> set nm. is_space c = is_whitespace c"
      by (auto simp add: is_space_def is_whitespace_def)
    then have "split_at is_space nm = split_at is_whitespace nm"
      by (rule split_at_agree)
    with a show ?thesis by (simp add: initials_described_def)
  qed
  have c: "initials P '''' = ''''"
    by (simp add: initials_def)
  have d: "initials P ''Jane Doe'' = toUpperCase P (CHR ''J'') @ toUpperCase P (CHR ''D'')"
    by (simp add: initials_def)
  have e: "initials P ''Madonna'' = toUpperCase P (CHR ''M'')"
    by (simp add: initials_def)
  from a b c d e show ?thesis by blast
qed

theorem initials_splits_at_spaces_witness:
  "filter is_whitespace ''Jane Doe'' = '' ''
   \<and> initials sample_platform ''Jane Doe'' = ''JD''
   \<and> initials_described is_whitespace sample_platform ''Jane Doe'' = ''JD''
   \<and> initials sample_platform ''Madonna'' = ''M''
   \<and> initials sample_platform [] = []"
proof -
  note t = initials_splits_at_spaces [of sample_platform "''Jane Doe''"]
  have h: "\<forall>c \<in> set ''Jane Doe''. is_whitespace c \<longrightarrow> c = CHR '' ''"
    by (simp add: is_whitespace_def)
  have u: "toUpperCase sample_platform (CHR ''J'') = ''J''"
    "toUpperCase sample_platform (CHR ''D'') = ''D''"
    "toUpperCase sample_platform (CHR ''M'') = ''M''"
    by (simp_all add: sample_platform_def sample_upper_def)
  from t have "initials sample_platform ''Jane Doe'' =
      toUpperCase sample_platform (CHR ''J'') @ toUpperCase sample_platform (CHR ''D'')"
    by blast
  then have jd: "initials sample_platform ''Jane Doe'' = ''JD''"
    by (simp add: u)
  from t h have "initials sample_platform ''Jane Doe'' =
      initials_described is_whitespace sample_platform ''Jane Doe''"
    by blast
  with jd have d: "initials_described is_whitespace sample_platform ''Jane Doe'' = ''JD''"
    by simp
  from t have "initials sample_platform ''Madonna'' = toUpperCase sample_platform (CHR ''M'')"
    by blast
  then have m: "initials sample_platform ''Madonna'' = ''M''"
    by (simp add: u)
  from t have e: "initials sample_platform [] = []"
    by blast
  have w: "filter is_whitespace ''Jane Doe'' = '' ''"
    by (simp add: is_whitespace_def)
  from w jd d m e show ?thesis by blast
qed

text \<open>
  C9 as stated fails on a name whose parts are separated by a tab: \<^verbatim>\<open>split(' ')\<close> does
  not split there, so the name is one token and has one initial, where splitting on
  whitespace gives two.
\<close>

theorem initials_tab_is_no_separator:
  "initials sample_platform (''Jane'' @ [CHR 0x09] @ ''Doe'') = ''J''
   \<and> initials_described is_whitespace sample_platform (''Jane'' @ [CHR 0x09] @ ''Doe'') = ''JD''"
  by (simp add: initials_def initials_described_def drop_empty_def is_whitespace_def
      sample_platform_def sample_upper_def)

lemma initials_lower_case: "initials sample_platform ''jane doe'' = ''JD''"
  by (simp add: initials_def sample_platform_def sample_upper_def)

end
